theory Spec2Isabelle
  imports Main "HOL-Library.Word"
begin

section \<open>JavaScript strings, values and thrown errors\<close>

text \<open>
  A JavaScript string is a sequence of UTF-16 code units; \<open>.length\<close> counts code units
  and \<open>.trim()\<close> removes the ECMAScript white space and line terminator code units from
  both ends. The string literals of the source are ASCII and are embedded with \<open>lit\<close>.
\<close>

type_synonym js_string = "16 word list"

definition lit :: "string \<Rightarrow> js_string" where
  "lit s = map (\<lambda>c. of_char c) s"

definition isWhiteSpace :: "16 word \<Rightarrow> bool" where
  "isWhiteSpace c =
     (c = 0x0009 \<or> c = 0x000A \<or> c = 0x000B \<or> c = 0x000C \<or> c = 0x000D \<or> c = 0x0020
      \<or> c = 0x00A0 \<or> c = 0x1680 \<or> (0x2000 \<le> c \<and> c \<le> 0x200A) \<or> c = 0x2028
      \<or> c = 0x2029 \<or> c = 0x202F \<or> c = 0x205F \<or> c = 0x3000 \<or> c = 0xFEFF)"

definition trim :: "js_string \<Rightarrow> js_string" where
  "trim s = rev (dropWhile isWhiteSpace (rev (dropWhile isWhiteSpace s)))"

text \<open>
  A thrown value: an error object with a message and, for the store's known request
  errors, a \<open>code\<close> property (\<open>'code' in error\<close> is \<open>errCode e \<noteq> None\<close>).
\<close>

datatype js_error = JsError (errMessage: string) (errCode: "string option")

text \<open>
  The values a caller can pass as \<open>boardData\<close> (\<open>Prisma.InputJsonValue\<close>, and what
  JavaScript lets through at run time). \<open>JCircular\<close> stands for a reference back to an
  enclosing object or array; \<open>JToJSON r\<close> is an object with a \<open>toJSON\<close> method whose
  call throws (\<open>Inl\<close>) or returns the value to serialise (\<open>Inr\<close>). The payload of a
  number is never inspected by the code.
\<close>

datatype js_value =
    JNull
  | JUndefined
  | JBool bool
  | JNum int
  | JBigInt int
  | JStr js_string
  | JArr "js_value list"
  | JObj "(js_string \<times> js_value) list"
  | JCircular
  | JToJSON "js_error + js_value"

text \<open>
  \<open>JSON.stringify(v)\<close>, reduced to what \<open>saveBoardState\<close> observes of it: whether
  it throws, and what. It walks the value in order and throws a TypeError at the first
  BigInt or circular reference, or whatever a \<open>toJSON\<close> method throws; \<open>undefined\<close>
  is skipped silently. The \<open>toJSON\<close> method is called once for each property value (and
  for the top value): the flag says whether that call is still to be made. What the method
  returns is serialised as it is, so a returned object that has a \<open>toJSON\<close> method of
  its own is written as a plain object and the method is not called.
\<close>

fun firstError :: "js_error option list \<Rightarrow> js_error option" where
  "firstError [] = None"
| "firstError (None # es) = firstError es"
| "firstError (Some e # es) = Some e"

fun stringifyFrom :: "bool \<Rightarrow> js_value \<Rightarrow> js_error option" where
  "stringifyFrom c JNull = None"
| "stringifyFrom c JUndefined = None"
| "stringifyFrom c (JBool b) = None"
| "stringifyFrom c (JNum n) = None"
| "stringifyFrom c (JBigInt n) =
     Some (JsError ''TypeError: Do not know how to serialize a BigInt'' None)"
| "stringifyFrom c (JStr s) = None"
| "stringifyFrom c (JArr vs) = firstError (map (stringifyFrom True) vs)"
| "stringifyFrom c (JObj kvs) = firstError (map (\<lambda>kv. stringifyFrom True (snd kv)) kvs)"
| "stringifyFrom c JCircular =
     Some (JsError ''TypeError: Converting circular structure to JSON'' None)"
| "stringifyFrom c (JToJSON (Inl e)) = (if c then Some e else None)"
| "stringifyFrom c (JToJSON (Inr v)) = (if c then stringifyFrom False v else None)"

definition JSON_stringify :: "js_value \<Rightarrow> js_error option" where
  "JSON_stringify v = stringifyFrom True v"

section \<open>The durable store\<close>

text \<open>
  One durable whiteboard record. \<open>w_boardData\<close> is \<open>None\<close> for a record that was
  created without a snapshot.
\<close>

record whiteboard_row =
  w_id :: js_string
  w_roomId :: js_string
  w_name :: js_string
  w_boardData :: "js_value option"
  w_userId :: js_string
  w_updatedAt :: nat

text \<open>The fields a \<open>create\<close> supplies; the store fills in the primary key and the time.\<close>

record create_input =
  c_userId :: js_string
  c_roomId :: js_string
  c_name :: js_string
  c_boardData :: "js_value option"

text \<open>What \<open>getServerSession\<close> resolves to: \<open>Session | null\<close>, with optional \<open>user\<close> and \<open>id\<close>.\<close>

datatype session_user = SessionUser (user_id: "js_string option")

datatype session = Session (user: "session_user option")

text \<open>
  Everything outside the actions that they read or change: the session of the caller,
  the whiteboard table, whether the next store call throws (and what), the primary key
  and time the store assigns to a write, the outcome of \<open>Cuid.createId()\<close>, and the
  paths handed to \<open>revalidatePath\<close>.
\<close>

record world =
  serverSession :: "session option"
  whiteboards :: "whiteboard_row list"
  storeFault :: "js_error option"
  defaultId :: js_string
  clock :: nat
  cuidOutcome :: "js_error + js_string"
  revalidated :: "string list"

text \<open>
  Modelled from the spec: the store's schema is not among the sources. The spec gives the
  durable record: \<open>id\<close> (primary key, distinct from \<open>roomId\<close>), \<open>roomId\<close> (unique),
  \<open>name\<close>, \<open>boardData\<close>, \<open>userId\<close> (owner) and \<open>updatedAt\<close>. A created record
  gets the primary key and the time from the store.
\<close>

definition newRow :: "world \<Rightarrow> create_input \<Rightarrow> whiteboard_row" where
  "newRow w c =
     \<lparr>w_id = defaultId w, w_roomId = c_roomId c, w_name = c_name c,
      w_boardData = c_boardData c, w_userId = c_userId c, w_updatedAt = clock w\<rparr>"

text \<open>
  Modelled from the spec: the store's uniqueness rule (\<open>id\<close> primary key, \<open>roomId\<close>
  unique) on insertion. A clash throws the store's unique-constraint error, code
  \<open>P2002\<close>, and inserts nothing.
\<close>

definition insertRow :: "world \<Rightarrow> create_input \<Rightarrow> (js_error + whiteboard_row) \<times> world" where
  "insertRow w c =
     (if list_ex (\<lambda>r. w_id r = defaultId w \<or> w_roomId r = c_roomId c) (whiteboards w)
      then (Inl (JsError ''Unique constraint failed'' (Some ''P2002'')), w)
      else (Inr (newRow w c), w\<lparr>whiteboards := whiteboards w @ [newRow w c]\<rparr>))"

text \<open>
  Modelled from the spec: the store operation find-by-roomId (\<open>findUnique\<close> of the
  store's client, which is not among the sources). It throws when the store is faulty.
\<close>

definition findUnique :: "world \<Rightarrow> (whiteboard_row \<Rightarrow> bool) \<Rightarrow> js_error + whiteboard_row option" where
  "findUnique w wh =
     (case storeFault w of
        Some e \<Rightarrow> Inl e
      | None \<Rightarrow> Inr (find wh (whiteboards w)))"

text \<open>
  Modelled from the spec: the store operation create(userId, roomId, name) of the store's
  client. A call that throws changes nothing.
\<close>

definition create :: "world \<Rightarrow> create_input \<Rightarrow> (js_error + whiteboard_row) \<times> world" where
  "create w c =
     (case storeFault w of
        Some e \<Rightarrow> (Inl e, w)
      | None \<Rightarrow> insertRow w c)"

fun updateFirst :: "('a \<Rightarrow> bool) \<Rightarrow> ('a \<Rightarrow> 'a) \<Rightarrow> 'a list \<Rightarrow> 'a list" where
  "updateFirst wh f [] = []"
| "updateFirst wh f (r # rs) = (if wh r then f r # rs else r # updateFirst wh f rs)"

text \<open>
  Modelled from the spec: the store operation upsert-by-roomId of the store's client. The
  record that matches the unique filter gets the update, which touches the listed fields
  and the automatic \<open>updatedAt\<close>; without a match the create input is inserted. The
  operation returns the record it wrote.
\<close>

definition upsert ::
  "world \<Rightarrow> (whiteboard_row \<Rightarrow> bool) \<Rightarrow> (whiteboard_row \<Rightarrow> whiteboard_row) \<Rightarrow> create_input
     \<Rightarrow> (js_error + whiteboard_row) \<times> world" where
  "upsert w wh upd c =
     (case storeFault w of
        Some e \<Rightarrow> (Inl e, w)
      | None \<Rightarrow>
         (case find wh (whiteboards w) of
            Some r \<Rightarrow>
              (Inr ((upd r)\<lparr>w_updatedAt := clock w\<rparr>),
               w\<lparr>whiteboards :=
                   updateFirst wh (\<lambda>r. (upd r)\<lparr>w_updatedAt := clock w\<rparr>) (whiteboards w)\<rparr>)
          | None \<Rightarrow> insertRow w c))"

text \<open>
  Modelled from the spec: the store operation update-by-id-and-owner (\<open>updateMany\<close> of
  the store's client): every record the filter accepts gets the update and the automatic
  \<open>updatedAt\<close>; the operation returns the affected count, zero when nothing matches.
\<close>

definition updateMany ::
  "world \<Rightarrow> (whiteboard_row \<Rightarrow> bool) \<Rightarrow> (whiteboard_row \<Rightarrow> whiteboard_row)
     \<Rightarrow> (js_error + nat) \<times> world" where
  "updateMany w wh upd =
     (case storeFault w of
        Some e \<Rightarrow> (Inl e, w)
      | None \<Rightarrow>
         (Inr (length (filter wh (whiteboards w))),
          w\<lparr>whiteboards :=
              map (\<lambda>r. if wh r then (upd r)\<lparr>w_updatedAt := clock w\<rparr> else r) (whiteboards w)\<rparr>))"

text \<open>
  Modelled from the spec: the store operation delete-by-id-and-owner (\<open>deleteMany\<close> of
  the store's client): every record the filter accepts is removed; the operation returns
  the affected count, zero when nothing matches.
\<close>

definition deleteMany :: "world \<Rightarrow> (whiteboard_row \<Rightarrow> bool) \<Rightarrow> (js_error + nat) \<times> world" where
  "deleteMany w wh =
     (case storeFault w of
        Some e \<Rightarrow> (Inl e, w)
      | None \<Rightarrow>
         (Inr (length (filter wh (whiteboards w))),
          w\<lparr>whiteboards := filter (\<lambda>r. \<not> wh r) (whiteboards w)\<rparr>))"

text \<open>\<open>revalidatePath\<close> of the framework, kept as a log of the paths it was given.\<close>

definition revalidatePath :: "world \<Rightarrow> string \<Rightarrow> world" where
  "revalidatePath w p = w\<lparr>revalidated := revalidated w @ [p]\<rparr>"

section \<open>The server actions (actions/boardActions.ts)\<close>

record action_result =
  success :: bool
  error :: "string option"

record save_result = action_result +
  whiteboard :: "whiteboard_row option"

record create_result = action_result +
  board :: "js_string option"

text \<open>\<open>session?.user?.id\<close>, and its truthiness: present and not the empty string.\<close>

definition sessionUserId :: "session option \<Rightarrow> js_string option" where
  "sessionUserId s =
     (case s of
        None \<Rightarrow> None
      | Some (Session None) \<Rightarrow> None
      | Some (Session (Some u)) \<Rightarrow> user_id u)"

definition authenticatedId :: "session option \<Rightarrow> js_string option" where
  "authenticatedId s =
     (case sessionUserId s of
        None \<Rightarrow> None
      | Some i \<Rightarrow> if i = [] then None else Some i)"

text \<open>
  \<open>!x || typeof x !== 'string' || x.trim() === ''\<close> for a parameter \<open>x\<close> typed
  \<open>string\<close>: the \<open>typeof\<close> test is false by typing.
\<close>

definition blankId :: "js_string \<Rightarrow> bool" where
  "blankId x = (x = [] \<or> trim x = [])"

text \<open>
  An action returns its result, \<open>Inr\<close>, or the error it throws to its caller,
  \<open>Inl\<close>, together with the world it leaves. The \<open>console\<close> calls are left out.
\<close>

definition saveBoardState ::
  "world \<Rightarrow> js_string \<Rightarrow> js_value \<Rightarrow> (js_error + save_result) \<times> world" where
  "saveBoardState w roomId boardData =
     (if blankId roomId
      then (Inr \<lparr>success = False, error = Some ''Invalid Room ID provided.'', whiteboard = None\<rparr>, w)
      else
        (case JSON_stringify boardData of
           Some e \<Rightarrow>
             (Inr \<lparr>success = False, error = Some ''boardData is not JSON-serializable.'',
                   whiteboard = None\<rparr>, w)
         | None \<Rightarrow>
             (case upsert w (\<lambda>r. w_roomId r = roomId) (\<lambda>r. r\<lparr>w_boardData := Some boardData\<rparr>)
                     \<lparr>c_userId = lit ''1'', c_roomId = roomId, c_name = lit ''Untitled Whiteboard'',
                      c_boardData = Some boardData\<rparr> of
                (Inr savedWhiteboard, w') \<Rightarrow>
                  (Inr \<lparr>success = True, error = None, whiteboard = Some savedWhiteboard\<rparr>, w')
              | (Inl e, w') \<Rightarrow>
                  (Inr \<lparr>success = False, error = Some ''Failed to save whiteboard state.'',
                        whiteboard = None\<rparr>, w'))))"

definition createBoard :: "world \<Rightarrow> (js_error + create_result) \<times> world" where
  "createBoard w =
     (case authenticatedId (serverSession w) of
        None \<Rightarrow> (Inr \<lparr>success = False, error = Some ''User not authenticated.'', board = None\<rparr>, w)
      | Some userId \<Rightarrow>
          (case cuidOutcome w of
             Inl e \<Rightarrow>
               (Inr \<lparr>success = False,
                     error = Some ''Failed to generate unique board identifier. Please try again.'',
                     board = None\<rparr>, w)
           | Inr roomId \<Rightarrow>
               (case create w \<lparr>c_userId = userId, c_roomId = roomId,
                               c_name = lit ''Untitled Whiteboard'', c_boardData = None\<rparr> of
                  (Inr newBoard, w') \<Rightarrow>
                    (Inr \<lparr>success = True, error = None, board = Some (w_roomId newBoard)\<rparr>,
                     revalidatePath w' ''/dashboard'')
                | (Inl e, w') \<Rightarrow>
                    (Inr \<lparr>success = False,
                          error = Some
                            (if errCode e = Some ''P2002''
                             then ''A board with this identifier already exists. Please try again.''
                             else if errCode e = Some ''P2003''
                             then ''Invalid user reference. Please try again.''
                             else ''An unexpected error occurred. Please try again later.''),
                          board = None\<rparr>, w'))))"

definition renameBoard ::
  "world \<Rightarrow> js_string \<Rightarrow> js_string \<Rightarrow> (js_error + action_result) \<times> world" where
  "renameBoard w boardId newName =
     (case authenticatedId (serverSession w) of
        None \<Rightarrow> (Inr \<lparr>success = False, error = Some ''User not authenticated.''\<rparr>, w)
      | Some userId \<Rightarrow>
          if blankId boardId
          then (Inr \<lparr>success = False, error = Some ''Invalid Board ID provided.''\<rparr>, w)
          else
            (let trimmedName = trim newName in
             if trimmedName = [] \<or> length trimmedName = 0
             then (Inr \<lparr>success = False, error = Some ''Board name cannot be empty.''\<rparr>, w)
             else if length trimmedName > 60
             then (Inr \<lparr>success = False, error = Some ''Board name cannot exceed 60 characters.''\<rparr>, w)
             else
               (case updateMany w (\<lambda>r. w_id r = boardId \<and> w_userId r = userId)
                       (\<lambda>r. r\<lparr>w_name := trimmedName\<rparr>) of
                  (Inr count, w') \<Rightarrow>
                    if count = 0
                    then (Inr \<lparr>success = False,
                               error = Some ''Board not found or permission denied.''\<rparr>, w')
                    else (Inr \<lparr>success = True, error = None\<rparr>, revalidatePath w' ''/dashboard'')
                | (Inl e, w') \<Rightarrow>
                    (Inr \<lparr>success = False,
                          error = Some ''Failed to rename whiteboard due to a server error.''\<rparr>,
                     w'))))"

definition deleteBoard :: "world \<Rightarrow> js_string \<Rightarrow> (js_error + action_result) \<times> world" where
  "deleteBoard w boardId =
     (case authenticatedId (serverSession w) of
        None \<Rightarrow> (Inr \<lparr>success = False, error = Some ''User not authenticated.''\<rparr>, w)
      | Some userId \<Rightarrow>
          if blankId boardId
          then (Inr \<lparr>success = False, error = Some ''Invalid Board ID provided.''\<rparr>, w)
          else
            (case deleteMany w (\<lambda>r. w_id r = boardId \<and> w_userId r = userId) of
               (Inr count, w') \<Rightarrow>
                 if count = 0
                 then (Inr \<lparr>success = False,
                            error = Some ''Board not found or permission denied.''\<rparr>, w')
                 else (Inr \<lparr>success = True, error = None\<rparr>, revalidatePath w' ''/dashboard'')
             | (Inl e, w') \<Rightarrow>
                 (Inr \<lparr>success = False,
                       error = Some ''Failed to delete whiteboard due to a server error.''\<rparr>,
                  w')))"

section \<open>Joining a room (app/board/[roomId]/page.tsx)\<close>

text \<open>
  \<open>redirect\<close> ends the page function; otherwise the page renders the whiteboard of the
  room with the stored snapshot as its initial data. The store lookup is not inside a
  \<open>try\<close>, so what it throws, the page throws.
\<close>

datatype page_outcome =
    Redirect string
  | RenderWhiteboard js_string "js_value option"

definition BoardPage :: "world \<Rightarrow> js_string \<Rightarrow> js_error + page_outcome" where
  "BoardPage w roomId =
     (case serverSession w of
        None \<Rightarrow> Inr (Redirect ''/signin'')
      | Some (Session None) \<Rightarrow> Inr (Redirect ''/signin'')
      | Some (Session (Some u)) \<Rightarrow>
          (case findUnique w (\<lambda>r. w_roomId r = roomId) of
             Inl e \<Rightarrow> Inl e
           | Inr None \<Rightarrow> Inr (Redirect ''/dashboard'')
           | Inr (Some b) \<Rightarrow> Inr (RenderWhiteboard roomId (w_boardData b))))"

section \<open>The undo log's action type\<close>

text \<open>
  The action type is a type declaration, so it is embedded as it is written: a term of
  the fragment of TypeScript's type language that the declaration uses. A property is its
  name, whether it is optional, and its type; an object type may carry an index signature.
\<close>

datatype ts_type =
    TString
  | TNumber
  | TUnknown
  | TAny
  | TLiteral string
  | TObject "(string \<times> bool \<times> ts_type) list" "ts_type option"
  | TUnion "ts_type list"

text \<open>
  When a run-time value has a type. An object type asks for each declared property to be
  there with a value of its type (an optional one may be missing or \<open>undefined\<close>), and
  with an index signature for every other property to have the signature's type; further
  properties are allowed otherwise.
\<close>

fun conforms :: "ts_type \<Rightarrow> js_value \<Rightarrow> bool" where
  "conforms TString v = (case v of JStr s \<Rightarrow> True | _ \<Rightarrow> False)"
| "conforms TNumber v = (case v of JNum n \<Rightarrow> True | _ \<Rightarrow> False)"
| "conforms TUnknown v = True"
| "conforms TAny v = True"
| "conforms (TLiteral s) v = (v = JStr (lit s))"
| "conforms (TUnion ts) v = list_ex (\<lambda>t. conforms t v) ts"
| "conforms (TObject props idx) v =
     (case v of
        JObj kvs \<Rightarrow>
          list_all (\<lambda>p. case map_of kvs (lit (fst p)) of
                          None \<Rightarrow> fst (snd p)
                        | Some x \<Rightarrow> (fst (snd p) \<and> x = JUndefined) \<or> conforms (snd (snd p)) x)
            props
          \<and> (case idx of
               None \<Rightarrow> True
             | Some t \<Rightarrow>
                 list_all (\<lambda>kv. fst kv \<in> set (map (\<lambda>p. lit (fst p)) props) \<or> conforms t (snd kv))
                   kvs)
      | _ \<Rightarrow> False)"

text \<open>
  What a declaration says, read off the declaration: the members of a union, the names and
  types of the declared properties, the literal tag in \<open>type\<close>, and the names of the
  properties of \<open>payload\<close>.
\<close>

fun unionMembers :: "ts_type \<Rightarrow> ts_type list" where
  "unionMembers (TUnion ts) = ts"
| "unionMembers t = [t]"

fun propNames :: "ts_type \<Rightarrow> string list" where
  "propNames (TObject props idx) = map fst props"
| "propNames t = []"

fun propType :: "ts_type \<Rightarrow> string \<Rightarrow> ts_type option" where
  "propType (TObject props idx) n = map_option snd (map_of props n)"
| "propType t n = None"

definition discriminant :: "ts_type \<Rightarrow> string option" where
  "discriminant m = (case propType m ''type'' of Some (TLiteral s) \<Rightarrow> Some s | _ \<Rightarrow> None)"

definition payloadProps :: "ts_type \<Rightarrow> string list option" where
  "payloadProps m = map_option propNames (propType m ''payload'')"

text \<open>\<open>CanvasObjectSnapshot\<close> and \<open>UndoableAction\<close>, as declared.\<close>

definition CanvasObjectSnapshot :: ts_type where
  "CanvasObjectSnapshot =
     TObject
       [(''type'', False, TString),
        (''data'', False,
           TObject
             [(''id'', False, TString),
              (''left'', True, TNumber),
              (''top'', True, TNumber),
              (''width'', True, TNumber),
              (''height'', True, TNumber),
              (''radius'', True, TNumber),
              (''angle'', True, TNumber),
              (''scaleX'', True, TNumber),
              (''scaleY'', True, TNumber),
              (''text'', True, TString),
              (''fontSize'', True, TNumber)]
             (Some TUnknown))]
       None"

definition UndoableAction :: ts_type where
  "UndoableAction =
     TUnion
       [TObject
          [(''type'', False, TLiteral ''ADD''),
           (''payload'', False, TObject [(''objectId'', False, TString)] None)]
          None,
        TObject
          [(''type'', False, TLiteral ''DELETE''),
           (''payload'', False,
              TObject [(''previousObjectState'', False, CanvasObjectSnapshot)] None)]
          None,
        TObject
          [(''type'', False, TLiteral ''MODIFY''),
           (''payload'', False,
              TObject
                [(''objectId'', False, TString),
                 (''stateBefore'', False, TObject [] (Some TAny))]
                None)]
          None]"

text \<open>
  The spec's side of the comparison, from its data model: \<open>CanvasObjectContent\<close> is a
  type tag and data that holds the required \<open>id\<close>, and an undoable action is
  \<open>ADD { objectId }\<close>, \<open>DELETE { previousObjectState: CanvasObjectContent }\<close> or
  \<open>MODIFY { objectId, stateBefore: partial field map }\<close>.
\<close>

record spec_CanvasObjectContent =
  contentType :: js_string
  contentId :: js_string
  contentData :: "(js_string \<times> js_value) list"

datatype spec_UndoableAction =
    Spec_ADD js_string
  | Spec_DELETE spec_CanvasObjectContent
  | Spec_MODIFY js_string "(js_string \<times> js_value) list"

text \<open>
  Modelled from the spec: the operations of the object store that an inversion issues,
  \<open>remove(id)\<close>, \<open>add(id, content)\<close> and \<open>setFields(id, partialData)\<close>. The
  store is not among the sources.
\<close>

datatype store_op =
    Remove js_string
  | Add js_string spec_CanvasObjectContent
  | SetFields js_string "(js_string \<times> js_value) list"

text \<open>
  Modelled from the spec: the inversion of \<open>undo()\<close>, which is not among the sources:
  \<open>ADD\<close> gives \<open>remove(objectId)\<close>, \<open>DELETE\<close> gives
  \<open>add(objectId, previousObjectState)\<close>, \<open>MODIFY\<close> gives
  \<open>setFields(objectId, stateBefore)\<close>.
\<close>

fun inverseOperation :: "spec_UndoableAction \<Rightarrow> store_op" where
  "inverseOperation (Spec_ADD oid) = Remove oid"
| "inverseOperation (Spec_DELETE prev) = Add (contentId prev) prev"
| "inverseOperation (Spec_MODIFY oid before) = SetFields oid before"

text \<open>Reading a property of a run-time value, as any value, as a string, as an object.\<close>

definition getProp :: "js_value \<Rightarrow> string \<Rightarrow> js_value option" where
  "getProp v n = (case v of JObj kvs \<Rightarrow> map_of kvs (lit n) | _ \<Rightarrow> None)"

definition strProp :: "js_value \<Rightarrow> string \<Rightarrow> js_string option" where
  "strProp v n = (case getProp v n of Some (JStr s) \<Rightarrow> Some s | _ \<Rightarrow> None)"

definition objProp :: "js_value \<Rightarrow> string \<Rightarrow> (js_string \<times> js_value) list option" where
  "objProp v n = (case getProp v n of Some (JObj kvs) \<Rightarrow> Some kvs | _ \<Rightarrow> None)"

text \<open>
  Modelled from the spec: the match on the tag at the point of inversion, which is not
  among the sources. It reads \<open>type\<close> and, under the matching case, the properties of
  \<open>payload\<close> that the inversion needs. \<open>NoCase\<close>: no case is written for the tag.
  \<open>BadPayload\<close>: a property the case reads is missing or of another kind.
\<close>

datatype match_failure = NoCase | BadPayload

definition matchAction :: "js_value \<Rightarrow> match_failure + spec_UndoableAction" where
  "matchAction action =
     (case strProp action ''type'' of
        None \<Rightarrow> Inl NoCase
      | Some tag \<Rightarrow>
          if tag = lit ''ADD'' then
            (case Option.bind (objProp action ''payload'') (\<lambda>p. strProp (JObj p) ''objectId'') of
               Some oid \<Rightarrow> Inr (Spec_ADD oid)
             | None \<Rightarrow> Inl BadPayload)
          else if tag = lit ''DELETE'' then
            (case Option.bind (objProp action ''payload'')
                    (\<lambda>p. objProp (JObj p) ''previousObjectState'') of
               None \<Rightarrow> Inl BadPayload
             | Some prev \<Rightarrow>
                 (case (strProp (JObj prev) ''type'', objProp (JObj prev) ''data'') of
                    (Some t, Some d) \<Rightarrow>
                      (case strProp (JObj d) ''id'' of
                         Some i \<Rightarrow>
                           Inr (Spec_DELETE
                                  \<lparr>contentType = t, contentId = i, contentData = d\<rparr>)
                       | None \<Rightarrow> Inl BadPayload)
                  | _ \<Rightarrow> Inl BadPayload))
          else if tag = lit ''MODIFY'' then
            (case (Option.bind (objProp action ''payload'') (\<lambda>p. strProp (JObj p) ''objectId''),
                   Option.bind (objProp action ''payload'') (\<lambda>p. objProp (JObj p) ''stateBefore'')) of
               (Some oid, Some before) \<Rightarrow> Inr (Spec_MODIFY oid before)
             | _ \<Rightarrow> Inl BadPayload)
          else Inl NoCase)"

text \<open>
  Modelled from the spec: the store operation that undoes an action value, which is the
  match followed by the inversion.
\<close>

definition undoOperation :: "js_value \<Rightarrow> match_failure + store_op" where
  "undoOperation action =
     (case matchAction action of Inl f \<Rightarrow> Inl f | Inr a \<Rightarrow> Inr (inverseOperation a))"

section \<open>Concrete worlds\<close>

text \<open>
  Two users with one board each, used to run the actions on concrete inputs: the
  parameters are the caller's session and the fault of the store.
\<close>

definition signedIn :: "string \<Rightarrow> session option" where
  "signedIn u = Some (Session (Some (SessionUser (Some (lit u)))))"

definition aliceBoard :: whiteboard_row where
  "aliceBoard =
     \<lparr>w_id = lit ''b1'', w_roomId = lit ''room1'', w_name = lit ''Plans'',
      w_boardData = None, w_userId = lit ''alice'', w_updatedAt = 5\<rparr>"

definition bobBoard :: whiteboard_row where
  "bobBoard =
     \<lparr>w_id = lit ''b2'', w_roomId = lit ''room2'', w_name = lit ''Notes'',
      w_boardData = Some (JObj []), w_userId = lit ''bob'', w_updatedAt = 7\<rparr>"

definition exampleWorld :: "session option \<Rightarrow> js_error option \<Rightarrow> world" where
  "exampleWorld s f =
     \<lparr>serverSession = s, whiteboards = [aliceBoard, bobBoard], storeFault = f,
      defaultId = lit ''b3'', clock = 9, cuidOutcome = Inr (lit ''room3''), revalidated = []\<rparr>"

text \<open>One action value of each variant.\<close>

definition exampleAdd :: js_value where
  "exampleAdd =
     JObj [(lit ''type'', JStr (lit ''ADD'')),
           (lit ''payload'', JObj [(lit ''objectId'', JStr (lit ''o1''))])]"

definition exampleDelete :: js_value where
  "exampleDelete =
     JObj [(lit ''type'', JStr (lit ''DELETE'')),
           (lit ''payload'',
              JObj [(lit ''previousObjectState'',
                       JObj [(lit ''type'', JStr (lit ''rect'')),
                             (lit ''data'',
                                JObj [(lit ''id'', JStr (lit ''o1'')),
                                      (lit ''left'', JNum 10),
                                      (lit ''top'', JNum 10)])])])]"

definition exampleModify :: js_value where
  "exampleModify =
     JObj [(lit ''type'', JStr (lit ''MODIFY'')),
           (lit ''payload'',
              JObj [(lit ''objectId'', JStr (lit ''o1'')),
                    (lit ''stateBefore'', JObj [(lit ''left'', JNum 10)])])]"

lemmas example_defs = exampleWorld_def aliceBoard_def bobBoard_def signedIn_def lit_def trim_def
  isWhiteSpace_def blankId_def authenticatedId_def sessionUserId_def JSON_stringify_def

lemmas action_defs = exampleAdd_def exampleDelete_def exampleModify_def UndoableAction_def
  CanvasObjectSnapshot_def undoOperation_def matchAction_def strProp_def objProp_def getProp_def
  lit_def


section \<open>The store operations when nothing matches, or the store is down\<close>

lemma filter_none: "\<not> list_ex P xs \<Longrightarrow> filter P xs = []"
  by (induction xs) auto

lemma map_no_match: "\<not> list_ex P xs \<Longrightarrow> map (\<lambda>r. if P r then f r else r) xs = xs"
  by (induction xs) auto

lemma filter_no_match: "\<not> list_ex P xs \<Longrightarrow> filter (\<lambda>r. \<not> P r) xs = xs"
  by (induction xs) auto

lemma updateMany_no_match:
  "storeFault w = None \<Longrightarrow> \<not> list_ex wh (whiteboards w) \<Longrightarrow> updateMany w wh upd = (Inr 0, w)"
  by (simp add: updateMany_def filter_none map_no_match)

lemma deleteMany_no_match:
  "storeFault w = None \<Longrightarrow> \<not> list_ex wh (whiteboards w) \<Longrightarrow> deleteMany w wh = (Inr 0, w)"
  by (simp add: deleteMany_def filter_none filter_no_match)

lemma upsert_fault: "storeFault w = Some e \<Longrightarrow> upsert w wh upd c = (Inl e, w)"
  by (simp add: upsert_def)

section \<open>Saving a board\<close>

text \<open>
  A \<open>toJSON\<close> method is called once: what it returns is not asked again, while a
  property of a plain object is.
\<close>

lemma toJSON_called_once: "JSON_stringify (JToJSON (Inr (JToJSON r))) = None"
  by (cases r) (simp_all add: JSON_stringify_def)

lemma toJSON_of_property: "JSON_stringify (JObj [(k, JToJSON (Inl e))]) = Some e"
  by (simp add: JSON_stringify_def)

text \<open>
  Claim C7. \<open>saveBoardState\<close> never throws to its caller: whatever the room id, the
  payload and the outcome of the store call, it returns a result object, which either
  reports success or carries an error message. When the store call throws, the result is
  \<open>success: false\<close> with the message of the save failure, and the world is as it was,
  so the caller may retry.
\<close>

theorem saveBoardState_never_throws:
  "(\<exists>r. fst (saveBoardState w roomId boardData) = Inr r
        \<and> (if success r then error r = None else \<exists>m. error r = Some m))
   \<and> (\<not> blankId roomId \<and> JSON_stringify boardData = None \<and> storeFault w = Some e
        \<longrightarrow> saveBoardState w roomId boardData =
              (Inr \<lparr>success = False, error = Some ''Failed to save whiteboard state.'',
                    whiteboard = None\<rparr>, w))"
  by (auto simp: saveBoardState_def upsert_fault split: option.splits prod.splits sum.splits)

theorem saveBoardState_never_throws_witness:
  "\<not> blankId (lit ''room1'') \<and> JSON_stringify (JObj []) = None
   \<and> storeFault (exampleWorld None (Some (JsError ''connection lost'' None))) =
       Some (JsError ''connection lost'' None)
   \<and> saveBoardState (exampleWorld None (Some (JsError ''connection lost'' None))) (lit ''room1'')
        (JObj []) =
       (Inr \<lparr>success = False, error = Some ''Failed to save whiteboard state.'',
             whiteboard = None\<rparr>,
        exampleWorld None (Some (JsError ''connection lost'' None)))"
  using saveBoardState_never_throws
          [of "exampleWorld None (Some (JsError ''connection lost'' None))" "lit ''room1''"
              "JObj []" "JsError ''connection lost'' None"]
  by (simp add: example_defs)

text \<open>
  Claim C5, as amended. For every call of \<open>saveBoardState\<close> whose payload
  \<open>JSON.stringify\<close> rejects, the call fails without touching the store: the result is
  \<open>success: false\<close> and the world is returned as it was, whatever the store holds and
  whether or not it is faulty. The error is the serialisation error when the room id
  passes the validation that comes first, and the invalid-room-id error otherwise.
\<close>

theorem saveBoardState_not_serializable:
  assumes "JSON_stringify boardData = Some e"
  shows "saveBoardState w roomId boardData =
           (Inr \<lparr>success = False,
                 error = Some (if blankId roomId then ''Invalid Room ID provided.''
                               else ''boardData is not JSON-serializable.''),
                 whiteboard = None\<rparr>, w)"
  using assms by (simp add: saveBoardState_def)

theorem saveBoardState_not_serializable_witness:
  "JSON_stringify (JObj [(lit ''n'', JBigInt 1)]) =
       Some (JsError ''TypeError: Do not know how to serialize a BigInt'' None)
   \<and> saveBoardState (exampleWorld None None) (lit ''room1'') (JObj [(lit ''n'', JBigInt 1)]) =
       (Inr \<lparr>success = False, error = Some ''boardData is not JSON-serializable.'',
             whiteboard = None\<rparr>, exampleWorld None None)"
  using saveBoardState_not_serializable
          [of "JObj [(lit ''n'', JBigInt 1)]"
              "JsError ''TypeError: Do not know how to serialize a BigInt'' None"
              "exampleWorld None None" "lit ''room1''"]
  by (simp add: example_defs)

text \<open>
  The claim as first stated promises the serialisation error for every such call. With an
  empty room id and a circular payload the call returns the invalid-room-id error instead.
\<close>

theorem saveBoardState_not_serializable_counterexample:
  "JSON_stringify JCircular =
       Some (JsError ''TypeError: Converting circular structure to JSON'' None)
   \<and> saveBoardState (exampleWorld None None) [] JCircular =
       (Inr \<lparr>success = False, error = Some ''Invalid Room ID provided.'', whiteboard = None\<rparr>,
        exampleWorld None None)
   \<and> fst (saveBoardState (exampleWorld None None) [] JCircular) \<noteq>
       Inr \<lparr>success = False, error = Some ''boardData is not JSON-serializable.'',
            whiteboard = None\<rparr>"
  by (simp add: saveBoardState_def blankId_def JSON_stringify_def)

lemma find_roomId_None:
  "find (\<lambda>r. w_roomId r = roomId) rows = None \<Longrightarrow>
     list_ex (\<lambda>r. w_id r = i \<or> w_roomId r = roomId) rows = list_ex (\<lambda>r. w_id r = i) rows"
  by (induction rows) (auto split: if_splits)

text \<open>
  Claim C2. \<open>saveBoardState\<close> never reads the session: two calls that differ only in the
  caller's session return the same result and leave the same table. When the room id has
  no record, a save that goes through (valid room id, serialisable payload, no fault,
  fresh primary key) appends exactly one record, owned by the constant user id \<open>'1'\<close>
  and named \<open>'Untitled Whiteboard'\<close>, whoever is signed in; any other save for such a
  room id fails and leaves the table as it was.
\<close>

theorem saveBoardState_ignores_session:
  "fst (saveBoardState (w\<lparr>serverSession := s1\<rparr>) roomId boardData) =
     fst (saveBoardState (w\<lparr>serverSession := s2\<rparr>) roomId boardData)
   \<and> whiteboards (snd (saveBoardState (w\<lparr>serverSession := s1\<rparr>) roomId boardData)) =
     whiteboards (snd (saveBoardState (w\<lparr>serverSession := s2\<rparr>) roomId boardData))
   \<and> (find (\<lambda>r. w_roomId r = roomId) (whiteboards w) = None \<longrightarrow>
        (let created = \<lparr>w_id = defaultId w, w_roomId = roomId, w_name = lit ''Untitled Whiteboard'',
                         w_boardData = Some boardData, w_userId = lit ''1'',
                         w_updatedAt = clock w\<rparr>
         in if \<not> blankId roomId \<and> JSON_stringify boardData = None \<and> storeFault w = None
               \<and> \<not> list_ex (\<lambda>r. w_id r = defaultId w) (whiteboards w)
            then saveBoardState (w\<lparr>serverSession := s1\<rparr>) roomId boardData =
                   (Inr \<lparr>success = True, error = None, whiteboard = Some created\<rparr>,
                    w\<lparr>serverSession := s1, whiteboards := whiteboards w @ [created]\<rparr>)
            else \<exists>m. saveBoardState (w\<lparr>serverSession := s1\<rparr>) roomId boardData =
                   (Inr \<lparr>success = False, error = Some m, whiteboard = None\<rparr>,
                    w\<lparr>serverSession := s1\<rparr>)))"
proof (intro conjI impI)
  show "fst (saveBoardState (w\<lparr>serverSession := s1\<rparr>) roomId boardData) =
     fst (saveBoardState (w\<lparr>serverSession := s2\<rparr>) roomId boardData)"
    by (simp add: saveBoardState_def upsert_def insertRow_def newRow_def
          split: option.splits prod.splits sum.splits)
  show "whiteboards (snd (saveBoardState (w\<lparr>serverSession := s1\<rparr>) roomId boardData)) =
     whiteboards (snd (saveBoardState (w\<lparr>serverSession := s2\<rparr>) roomId boardData))"
    by (simp add: saveBoardState_def upsert_def insertRow_def newRow_def
          split: option.splits prod.splits sum.splits)
next
  assume nf: "find (\<lambda>r. w_roomId r = roomId) (whiteboards w) = None"
  show "let created = \<lparr>w_id = defaultId w, w_roomId = roomId, w_name = lit ''Untitled Whiteboard'',
                         w_boardData = Some boardData, w_userId = lit ''1'',
                         w_updatedAt = clock w\<rparr>
         in if \<not> blankId roomId \<and> JSON_stringify boardData = None \<and> storeFault w = None
               \<and> \<not> list_ex (\<lambda>r. w_id r = defaultId w) (whiteboards w)
            then saveBoardState (w\<lparr>serverSession := s1\<rparr>) roomId boardData =
                   (Inr \<lparr>success = True, error = None, whiteboard = Some created\<rparr>,
                    w\<lparr>serverSession := s1, whiteboards := whiteboards w @ [created]\<rparr>)
            else \<exists>m. saveBoardState (w\<lparr>serverSession := s1\<rparr>) roomId boardData =
                   (Inr \<lparr>success = False, error = Some m, whiteboard = None\<rparr>,
                    w\<lparr>serverSession := s1\<rparr>)"
    using nf find_roomId_None [OF nf, of "defaultId w"]
    by (auto simp: saveBoardState_def upsert_def insertRow_def newRow_def Let_def
          split: option.splits)
qed

theorem saveBoardState_ignores_session_witness:
  "find (\<lambda>r. w_roomId r = lit ''room9'') (whiteboards (exampleWorld None None)) = None
   \<and> saveBoardState ((exampleWorld None None)\<lparr>serverSession := signedIn ''alice''\<rparr>)
        (lit ''room9'') (JObj []) =
       (Inr \<lparr>success = True, error = None,
             whiteboard = Some \<lparr>w_id = lit ''b3'', w_roomId = lit ''room9'',
                                 w_name = lit ''Untitled Whiteboard'', w_boardData = Some (JObj []),
                                 w_userId = lit ''1'', w_updatedAt = 9\<rparr>\<rparr>,
        (exampleWorld None None)
          \<lparr>serverSession := signedIn ''alice'',
           whiteboards := [aliceBoard, bobBoard,
             \<lparr>w_id = lit ''b3'', w_roomId = lit ''room9'', w_name = lit ''Untitled Whiteboard'',
              w_boardData = Some (JObj []), w_userId = lit ''1'', w_updatedAt = 9\<rparr>]\<rparr>)
   \<and> fst (saveBoardState ((exampleWorld None None)\<lparr>serverSession := signedIn ''alice''\<rparr>)
          (lit ''room9'') (JObj [])) =
     fst (saveBoardState ((exampleWorld None None)\<lparr>serverSession := None\<rparr>)
          (lit ''room9'') (JObj []))"
  using saveBoardState_ignores_session
          [where w = "exampleWorld None None" and ?s1.0 = "signedIn ''alice''" and ?s2.0 = None
             and roomId = "lit ''room9''" and boardData = "JObj []"]
  by (simp add: example_defs Let_def saveBoardState_def upsert_def insertRow_def newRow_def)

lemma updateFirst_frame:
  "(\<And>r. g (f r) = g r) \<Longrightarrow> map g (updateFirst wh f rows) = map g rows"
  by (induction rows) auto

text \<open>
  Claim C6. When the room id already has a record, a save leaves the id, room id, name and
  owner of every record as they were, in the same order. A save that goes through
  rewrites the record found for the room id and nothing else: its \<open>boardData\<close> becomes
  the payload (and the store stamps \<open>updatedAt\<close>); a save that does not go through
  leaves the world as it was.
\<close>

theorem saveBoardState_existing_frame:
  assumes "find (\<lambda>r. w_roomId r = roomId) (whiteboards w) = Some old"
  shows "map (\<lambda>r. (w_id r, w_roomId r, w_name r, w_userId r))
             (whiteboards (snd (saveBoardState w roomId boardData))) =
         map (\<lambda>r. (w_id r, w_roomId r, w_name r, w_userId r)) (whiteboards w)
       \<and> (if \<not> blankId roomId \<and> JSON_stringify boardData = None \<and> storeFault w = None
          then saveBoardState w roomId boardData =
                 (Inr \<lparr>success = True, error = None,
                       whiteboard = Some (old\<lparr>w_boardData := Some boardData,
                                              w_updatedAt := clock w\<rparr>)\<rparr>,
                  w\<lparr>whiteboards :=
                      updateFirst (\<lambda>r. w_roomId r = roomId)
                        (\<lambda>r. r\<lparr>w_boardData := Some boardData, w_updatedAt := clock w\<rparr>)
                        (whiteboards w)\<rparr>)
          else snd (saveBoardState w roomId boardData) = w)"
  using assms
  by (auto simp: saveBoardState_def upsert_def updateFirst_frame split: option.splits)

theorem saveBoardState_existing_frame_witness:
  "find (\<lambda>r. w_roomId r = lit ''room1'') (whiteboards (exampleWorld None None)) = Some aliceBoard
   \<and> saveBoardState (exampleWorld None None) (lit ''room1'') (JArr [JNum 1]) =
       (Inr \<lparr>success = True, error = None,
             whiteboard = Some (aliceBoard\<lparr>w_boardData := Some (JArr [JNum 1]), w_updatedAt := 9\<rparr>)\<rparr>,
        (exampleWorld None None)
          \<lparr>whiteboards := [aliceBoard\<lparr>w_boardData := Some (JArr [JNum 1]), w_updatedAt := 9\<rparr>,
                           bobBoard]\<rparr>)
   \<and> w_name (aliceBoard\<lparr>w_boardData := Some (JArr [JNum 1]), w_updatedAt := 9\<rparr>) = lit ''Plans''
   \<and> w_userId (aliceBoard\<lparr>w_boardData := Some (JArr [JNum 1]), w_updatedAt := 9\<rparr>) = lit ''alice''"
  using saveBoardState_existing_frame
          [of "lit ''room1''" "exampleWorld None None" aliceBoard "JArr [JNum 1]"]
  by (simp add: example_defs)

section \<open>Creating, renaming and deleting a board\<close>

text \<open>
  Claim C9. Without an authenticated session (no session, no user, no user id, or an
  empty one) \<open>createBoard\<close>, \<open>renameBoard\<close> and \<open>deleteBoard\<close> each return
  \<open>success: false\<close> with the error \<open>'User not authenticated.'\<close>, and return the
  world as it was: the store is neither read nor written.
\<close>

theorem unauthenticated_rejected:
  assumes "authenticatedId (serverSession w) = None"
  shows "createBoard w =
           (Inr \<lparr>success = False, error = Some ''User not authenticated.'', board = None\<rparr>, w)
       \<and> renameBoard w boardId newName =
           (Inr \<lparr>success = False, error = Some ''User not authenticated.''\<rparr>, w)
       \<and> deleteBoard w boardId =
           (Inr \<lparr>success = False, error = Some ''User not authenticated.''\<rparr>, w)"
  using assms by (simp add: createBoard_def renameBoard_def deleteBoard_def)

theorem unauthenticated_rejected_witness:
  "authenticatedId (serverSession (exampleWorld None None)) = None
   \<and> createBoard (exampleWorld None None) =
       (Inr \<lparr>success = False, error = Some ''User not authenticated.'', board = None\<rparr>,
        exampleWorld None None)
   \<and> renameBoard (exampleWorld None None) (lit ''b1'') (lit ''Mine now'') =
       (Inr \<lparr>success = False, error = Some ''User not authenticated.''\<rparr>, exampleWorld None None)
   \<and> deleteBoard (exampleWorld None None) (lit ''b1'') =
       (Inr \<lparr>success = False, error = Some ''User not authenticated.''\<rparr>, exampleWorld None None)"
  using unauthenticated_rejected [of "exampleWorld None None" "lit ''b1''" "lit ''Mine now''"]
  by (simp add: example_defs)

lemma renamed_rows_named:
  "list_all (\<lambda>r. w_id r = boardId \<and> w_userId r = userId \<longrightarrow> w_name r = n)
     (map (\<lambda>r. if w_id r = boardId \<and> w_userId r = userId
                then r\<lparr>w_name := n, w_updatedAt := t\<rparr> else r) rows)"
  by (induction rows) auto

lemma renameBoard_success:
  assumes "renameBoard w boardId newName = (Inr res, w')" and "success res"
  shows "\<exists>userId. authenticatedId (serverSession w) = Some userId
           \<and> list_ex (\<lambda>r. w_id r = boardId \<and> w_userId r = userId) (whiteboards w)
           \<and> whiteboards w' =
               map (\<lambda>r. if w_id r = boardId \<and> w_userId r = userId
                          then r\<lparr>w_name := trim newName, w_updatedAt := clock w\<rparr> else r)
                 (whiteboards w)"
proof (cases "authenticatedId (serverSession w)")
  case None
  with assms show ?thesis by (auto simp: renameBoard_def)
next
  case (Some userId)
  let ?wh = "\<lambda>r. w_id r = boardId \<and> w_userId r = userId"
  from assms Some have valid: "\<not> blankId boardId" "trim newName \<noteq> []"
      "\<not> 60 < length (trim newName)"
    by (auto simp: renameBoard_def Let_def split: if_splits)
  from assms Some valid have nofault: "storeFault w = None"
    by (cases "storeFault w") (auto simp: renameBoard_def Let_def updateMany_def)
  have ex: "list_ex ?wh (whiteboards w)"
  proof (rule ccontr)
    assume "\<not> list_ex ?wh (whiteboards w)"
    then have "updateMany w ?wh (\<lambda>r. r\<lparr>w_name := trim newName\<rparr>) = (Inr 0, w)"
      using nofault by (rule updateMany_no_match [rotated])
    with assms Some valid show False by (auto simp: renameBoard_def Let_def)
  qed
  from assms Some valid nofault have "whiteboards w' =
      map (\<lambda>r. if ?wh r then r\<lparr>w_name := trim newName, w_updatedAt := clock w\<rparr> else r)
        (whiteboards w)"
    by (auto simp: renameBoard_def Let_def updateMany_def revalidatePath_def split: if_splits)
  with Some ex show ?thesis by simp
qed

text \<open>
  Claim C10. \<open>renameBoard\<close> works on the trimmed name. When the trimmed name is empty or
  longer than 60 code units, the action returns \<open>success: false\<close> and the world as it
  was. When the action succeeds, the caller is authenticated, a record with the given id
  and the caller as owner existed, the table is the old one with the name of exactly
  those records set to the trimmed name, and so every such record now carries it.
\<close>

theorem renameBoard_trims_and_validates:
  "(trim newName = [] \<or> 60 < length (trim newName) \<longrightarrow>
      (\<exists>m. renameBoard w boardId newName = (Inr \<lparr>success = False, error = Some m\<rparr>, w)))
   \<and> (renameBoard w boardId newName = (Inr res, w') \<and> success res \<longrightarrow>
      (\<exists>userId. authenticatedId (serverSession w) = Some userId
         \<and> list_ex (\<lambda>r. w_id r = boardId \<and> w_userId r = userId) (whiteboards w)
         \<and> whiteboards w' =
             map (\<lambda>r. if w_id r = boardId \<and> w_userId r = userId
                        then r\<lparr>w_name := trim newName, w_updatedAt := clock w\<rparr> else r)
               (whiteboards w)
         \<and> list_all (\<lambda>r. w_id r = boardId \<and> w_userId r = userId \<longrightarrow> w_name r = trim newName)
             (whiteboards w')))"
proof (intro conjI impI)
  assume "trim newName = [] \<or> 60 < length (trim newName)"
  then show "\<exists>m. renameBoard w boardId newName = (Inr \<lparr>success = False, error = Some m\<rparr>, w)"
    by (auto simp: renameBoard_def Let_def split: option.splits)
next
  assume "renameBoard w boardId newName = (Inr res, w') \<and> success res"
  then obtain userId where u: "authenticatedId (serverSession w) = Some userId"
      "list_ex (\<lambda>r. w_id r = boardId \<and> w_userId r = userId) (whiteboards w)"
      "whiteboards w' =
             map (\<lambda>r. if w_id r = boardId \<and> w_userId r = userId
                        then r\<lparr>w_name := trim newName, w_updatedAt := clock w\<rparr> else r)
               (whiteboards w)"
    using renameBoard_success by blast
  have "list_all (\<lambda>r. w_id r = boardId \<and> w_userId r = userId \<longrightarrow> w_name r = trim newName)
             (whiteboards w')"
    unfolding u(3) by (rule renamed_rows_named)
  with u show "\<exists>userId. authenticatedId (serverSession w) = Some userId
         \<and> list_ex (\<lambda>r. w_id r = boardId \<and> w_userId r = userId) (whiteboards w)
         \<and> whiteboards w' =
             map (\<lambda>r. if w_id r = boardId \<and> w_userId r = userId
                        then r\<lparr>w_name := trim newName, w_updatedAt := clock w\<rparr> else r)
               (whiteboards w)
         \<and> list_all (\<lambda>r. w_id r = boardId \<and> w_userId r = userId \<longrightarrow> w_name r = trim newName)
             (whiteboards w')"
    by blast
qed

theorem renameBoard_trims_and_validates_witness:
  "60 < length (trim (lit ''aaaaaaaaaaaaaaaaaaaaaaaaaaaaaaaaaaaaaaaaaaaaaaaaaaaaaaaaaaaaa''))
   \<and> renameBoard (exampleWorld (signedIn ''alice'') None) (lit ''b1'')
        (lit ''aaaaaaaaaaaaaaaaaaaaaaaaaaaaaaaaaaaaaaaaaaaaaaaaaaaaaaaaaaaaa'') =
       (Inr \<lparr>success = False, error = Some ''Board name cannot exceed 60 characters.''\<rparr>,
        exampleWorld (signedIn ''alice'') None)
   \<and> trim (lit ''   '') = []
   \<and> renameBoard (exampleWorld (signedIn ''alice'') None) (lit ''b1'') (lit ''   '') =
       (Inr \<lparr>success = False, error = Some ''Board name cannot be empty.''\<rparr>,
        exampleWorld (signedIn ''alice'') None)
   \<and> trim (lit ''  Road map '') = lit ''Road map''
   \<and> renameBoard (exampleWorld (signedIn ''alice'') None) (lit ''b1'') (lit ''  Road map '') =
       (Inr \<lparr>success = True, error = None\<rparr>,
        (exampleWorld (signedIn ''alice'') None)
          \<lparr>whiteboards := [aliceBoard\<lparr>w_name := lit ''Road map'', w_updatedAt := 9\<rparr>, bobBoard],
           revalidated := [''/dashboard'']\<rparr>)
   \<and> map w_name [aliceBoard\<lparr>w_name := lit ''Road map'', w_updatedAt := 9\<rparr>, bobBoard] =
       [lit ''Road map'', lit ''Notes'']"
  using renameBoard_trims_and_validates
          [of "lit ''aaaaaaaaaaaaaaaaaaaaaaaaaaaaaaaaaaaaaaaaaaaaaaaaaaaaaaaaaaaaa''"
              "exampleWorld (signedIn ''alice'') None" "lit ''b1''"]
        renameBoard_trims_and_validates
          [of "lit ''   ''" "exampleWorld (signedIn ''alice'') None" "lit ''b1''"]
        renameBoard_trims_and_validates
          [of "lit ''  Road map ''" "exampleWorld (signedIn ''alice'') None" "lit ''b1''"
              "\<lparr>success = True, error = None\<rparr>"
              "(exampleWorld (signedIn ''alice'') None)
                 \<lparr>whiteboards := [aliceBoard\<lparr>w_name := lit ''Road map'', w_updatedAt := 9\<rparr>, bobBoard],
                  revalidated := [''/dashboard'']\<rparr>"]
  by (simp add: example_defs renameBoard_def updateMany_def revalidatePath_def)

lemma renameBoard_returns: "\<exists>res. fst (renameBoard w boardId newName) = Inr res"
  by (auto simp: renameBoard_def Let_def split: option.splits prod.splits sum.splits)

lemma deleteBoard_returns: "\<exists>res. fst (deleteBoard w boardId) = Inr res"
  by (auto simp: deleteBoard_def split: option.splits prod.splits sum.splits)

lemma renameBoard_rows:
  "authenticatedId (serverSession w) = Some userId \<Longrightarrow> \<not> blankId boardId \<Longrightarrow> storeFault w = None
   \<Longrightarrow> trim newName \<noteq> [] \<Longrightarrow> length (trim newName) \<le> 60
   \<Longrightarrow> whiteboards (snd (renameBoard w boardId newName)) =
         map (\<lambda>r. if w_id r = boardId \<and> w_userId r = userId
                    then r\<lparr>w_name := trim newName, w_updatedAt := clock w\<rparr> else r)
           (whiteboards w)"
  by (simp add: renameBoard_def Let_def updateMany_def revalidatePath_def)

lemma deleteBoard_rows:
  "authenticatedId (serverSession w) = Some userId \<Longrightarrow> \<not> blankId boardId \<Longrightarrow> storeFault w = None
   \<Longrightarrow> whiteboards (snd (deleteBoard w boardId)) =
         filter (\<lambda>r. \<not> (w_id r = boardId \<and> w_userId r = userId)) (whiteboards w)"
  by (simp add: deleteBoard_def deleteMany_def revalidatePath_def)

lemma renameBoard_denied:
  "authenticatedId (serverSession w) = Some userId \<Longrightarrow> \<not> blankId boardId \<Longrightarrow> storeFault w = None
   \<Longrightarrow> trim newName \<noteq> [] \<Longrightarrow> length (trim newName) \<le> 60
   \<Longrightarrow> \<not> list_ex (\<lambda>r. w_id r = boardId \<and> w_userId r = userId) (whiteboards w)
   \<Longrightarrow> renameBoard w boardId newName =
         (Inr \<lparr>success = False, error = Some ''Board not found or permission denied.''\<rparr>, w)"
  by (simp add: renameBoard_def Let_def updateMany_no_match)

lemma deleteBoard_denied:
  "authenticatedId (serverSession w) = Some userId \<Longrightarrow> \<not> blankId boardId \<Longrightarrow> storeFault w = None
   \<Longrightarrow> \<not> list_ex (\<lambda>r. w_id r = boardId \<and> w_userId r = userId) (whiteboards w)
   \<Longrightarrow> deleteBoard w boardId =
         (Inr \<lparr>success = False, error = Some ''Board not found or permission denied.''\<rparr>, w)"
  by (simp add: deleteBoard_def deleteMany_no_match)

text \<open>
  Claim C1. Neither \<open>renameBoard\<close> nor \<open>deleteBoard\<close> throws. When such an action
  reaches its write (authenticated caller, non-blank board id, for a rename a trimmed name
  of 1 to 60 code units) and the store answers, the write touches exactly the records
  whose id is the board id and whose owner is the caller: a delete removes them, a rename
  sets their name. When no record matches both, the store operation returns the affected
  count zero, and the action returns \<open>success: false\<close> with the error
  \<open>'Board not found or permission denied.'\<close> and the world as it was.
\<close>

theorem owner_scoped_writes:
  "(\<exists>res. fst (renameBoard w boardId newName) = Inr res)
   \<and> (\<exists>res. fst (deleteBoard w boardId) = Inr res)
   \<and> (authenticatedId (serverSession w) = Some userId \<and> \<not> blankId boardId \<and> storeFault w = None
      \<longrightarrow>
        whiteboards (snd (deleteBoard w boardId)) =
          filter (\<lambda>r. \<not> (w_id r = boardId \<and> w_userId r = userId)) (whiteboards w)
        \<and> (\<not> list_ex (\<lambda>r. w_id r = boardId \<and> w_userId r = userId) (whiteboards w) \<longrightarrow>
             fst (deleteMany w (\<lambda>r. w_id r = boardId \<and> w_userId r = userId)) = Inr 0
             \<and> deleteBoard w boardId =
                 (Inr \<lparr>success = False, error = Some ''Board not found or permission denied.''\<rparr>,
                  w))
        \<and> (trim newName \<noteq> [] \<and> length (trim newName) \<le> 60 \<longrightarrow>
             whiteboards (snd (renameBoard w boardId newName)) =
               map (\<lambda>r. if w_id r = boardId \<and> w_userId r = userId
                          then r\<lparr>w_name := trim newName, w_updatedAt := clock w\<rparr> else r)
                 (whiteboards w)
             \<and> (\<not> list_ex (\<lambda>r. w_id r = boardId \<and> w_userId r = userId) (whiteboards w) \<longrightarrow>
                  fst (updateMany w (\<lambda>r. w_id r = boardId \<and> w_userId r = userId)
                         (\<lambda>r. r\<lparr>w_name := trim newName\<rparr>)) = Inr 0
                  \<and> renameBoard w boardId newName =
                      (Inr \<lparr>success = False,
                            error = Some ''Board not found or permission denied.''\<rparr>, w))))"
  by (intro conjI impI renameBoard_returns deleteBoard_returns)
     (simp_all add: renameBoard_rows deleteBoard_rows renameBoard_denied deleteBoard_denied
        updateMany_no_match deleteMany_no_match)

theorem owner_scoped_writes_witness:
  "authenticatedId (serverSession (exampleWorld (signedIn ''bob'') None)) = Some (lit ''bob'')
   \<and> \<not> blankId (lit ''b1'') \<and> storeFault (exampleWorld (signedIn ''bob'') None) = None
   \<and> trim (lit ''Mine now'') \<noteq> [] \<and> length (trim (lit ''Mine now'')) \<le> 60
   \<and> \<not> list_ex (\<lambda>r. w_id r = lit ''b1'' \<and> w_userId r = lit ''bob'')
          (whiteboards (exampleWorld (signedIn ''bob'') None))
   \<and> renameBoard (exampleWorld (signedIn ''bob'') None) (lit ''b1'') (lit ''Mine now'') =
       (Inr \<lparr>success = False, error = Some ''Board not found or permission denied.''\<rparr>,
        exampleWorld (signedIn ''bob'') None)
   \<and> deleteBoard (exampleWorld (signedIn ''bob'') None) (lit ''b1'') =
       (Inr \<lparr>success = False, error = Some ''Board not found or permission denied.''\<rparr>,
        exampleWorld (signedIn ''bob'') None)"
  using owner_scoped_writes
          [of "exampleWorld (signedIn ''bob'') None" "lit ''b1''" "lit ''Mine now''" "lit ''bob''"]
  by (simp add: example_defs)

text \<open>
  Claim C4, as amended. When the authenticated caller owns no record with the given board
  id, every \<open>renameBoard\<close> call returns \<open>success: false\<close> with an error and the
  world exactly as it was, so no name has changed. The store's update, when the store
  answers, returns the affected count zero and changes nothing; and a call that reaches it
  (non-blank board id, trimmed name of 1 to 60 code units) returns the error
  \<open>'Board not found or permission denied.'\<close>.
\<close>

theorem rename_by_non_owner:
  assumes "authenticatedId (serverSession w) = Some userId"
    and "\<not> list_ex (\<lambda>r. w_id r = boardId \<and> w_userId r = userId) (whiteboards w)"
  shows "(\<exists>m. renameBoard w boardId newName = (Inr \<lparr>success = False, error = Some m\<rparr>, w))
       \<and> (storeFault w = None \<longrightarrow>
            updateMany w (\<lambda>r. w_id r = boardId \<and> w_userId r = userId)
              (\<lambda>r. r\<lparr>w_name := trim newName\<rparr>) = (Inr 0, w))
       \<and> (\<not> blankId boardId \<and> trim newName \<noteq> [] \<and> length (trim newName) \<le> 60
            \<and> storeFault w = None \<longrightarrow>
            renameBoard w boardId newName =
              (Inr \<lparr>success = False, error = Some ''Board not found or permission denied.''\<rparr>,
               w))"
proof (intro conjI impI)
  show "\<exists>m. renameBoard w boardId newName = (Inr \<lparr>success = False, error = Some m\<rparr>, w)"
  proof (cases "storeFault w")
    case None
    with assms show ?thesis
      by (simp add: renameBoard_def Let_def updateMany_no_match)
  next
    case (Some e)
    with assms show ?thesis
      by (simp add: renameBoard_def Let_def updateMany_def)
  qed
next
  assume "storeFault w = None"
  with assms(2) show "updateMany w (\<lambda>r. w_id r = boardId \<and> w_userId r = userId)
              (\<lambda>r. r\<lparr>w_name := trim newName\<rparr>) = (Inr 0, w)"
    by (simp add: updateMany_no_match)
next
  assume "\<not> blankId boardId \<and> trim newName \<noteq> [] \<and> length (trim newName) \<le> 60
            \<and> storeFault w = None"
  with assms show "renameBoard w boardId newName =
              (Inr \<lparr>success = False, error = Some ''Board not found or permission denied.''\<rparr>,
               w)"
    by (simp add: renameBoard_denied)
qed

theorem rename_by_non_owner_witness:
  "authenticatedId (serverSession (exampleWorld (signedIn ''alice'') None)) = Some (lit ''alice'')
   \<and> \<not> list_ex (\<lambda>r. w_id r = lit ''b2'' \<and> w_userId r = lit ''alice'')
          (whiteboards (exampleWorld (signedIn ''alice'') None))
   \<and> \<not> blankId (lit ''b2'') \<and> trim (lit '' Taken '') = lit ''Taken''
   \<and> storeFault (exampleWorld (signedIn ''alice'') None) = None
   \<and> renameBoard (exampleWorld (signedIn ''alice'') None) (lit ''b2'') (lit '' Taken '') =
       (Inr \<lparr>success = False, error = Some ''Board not found or permission denied.''\<rparr>,
        exampleWorld (signedIn ''alice'') None)
   \<and> map w_name (whiteboards (exampleWorld (signedIn ''alice'') None)) =
       [lit ''Plans'', lit ''Notes'']"
  using rename_by_non_owner
          [of "exampleWorld (signedIn ''alice'') None" "lit ''alice''" "lit ''b2''" "lit '' Taken ''"]
  by (simp add: example_defs)

text \<open>
  The claim as first stated promises the permission-denied failure for every rename
  attempt by a caller who is not the owner. A name that trims to nothing is refused
  before the store is asked: the failure is the empty-name one.
\<close>

theorem rename_by_non_owner_counterexample:
  "authenticatedId (serverSession (exampleWorld (signedIn ''alice'') None)) = Some (lit ''alice'')
   \<and> list_ex (\<lambda>r. w_id r = lit ''b2'' \<and> w_userId r = lit ''bob'')
         (whiteboards (exampleWorld (signedIn ''alice'') None))
   \<and> \<not> list_ex (\<lambda>r. w_id r = lit ''b2'' \<and> w_userId r = lit ''alice'')
          (whiteboards (exampleWorld (signedIn ''alice'') None))
   \<and> renameBoard (exampleWorld (signedIn ''alice'') None) (lit ''b2'') (lit ''   '') =
       (Inr \<lparr>success = False, error = Some ''Board name cannot be empty.''\<rparr>,
        exampleWorld (signedIn ''alice'') None)
   \<and> fst (renameBoard (exampleWorld (signedIn ''alice'') None) (lit ''b2'') (lit ''   '')) \<noteq>
       Inr \<lparr>success = False, error = Some ''Board not found or permission denied.''\<rparr>"
  by (simp add: example_defs renameBoard_def)

section \<open>Joining a room without a record\<close>

text \<open>
  Claim C3, as amended. When no record exists for the room id, the page never renders the
  whiteboard, with an empty store or otherwise: a signed-in caller whose lookup the store
  answers is redirected to \<open>'/dashboard'\<close>.
\<close>

theorem BoardPage_missing_record:
  assumes "find (\<lambda>r. w_roomId r = roomId) (whiteboards w) = None"
  shows "BoardPage w roomId \<noteq> Inr (RenderWhiteboard roomId' initialData)
       \<and> (serverSession w = Some (Session (Some u)) \<and> storeFault w = None \<longrightarrow>
            BoardPage w roomId = Inr (Redirect ''/dashboard''))"
  using assms
  by (auto simp: BoardPage_def findUnique_def split: option.splits session.splits)

theorem BoardPage_missing_record_witness:
  "find (\<lambda>r. w_roomId r = lit ''room7'') (whiteboards (exampleWorld (signedIn ''bob'') None)) = None
   \<and> serverSession (exampleWorld (signedIn ''bob'') None) =
       Some (Session (Some (SessionUser (Some (lit ''bob'')))))
   \<and> storeFault (exampleWorld (signedIn ''bob'') None) = None
   \<and> BoardPage (exampleWorld (signedIn ''bob'') None) (lit ''room7'') =
       Inr (Redirect ''/dashboard'')"
  using BoardPage_missing_record
          [where roomId = "lit ''room7''" and w = "exampleWorld (signedIn ''bob'') None"
             and roomId' = "lit ''room7''" and initialData = None
             and u = "SessionUser (Some (lit ''bob''))"]
  by (simp add: example_defs)

text \<open>
  The claim as first stated has the caller go on with an empty store. For a signed-in
  caller and a room id without a record, the page redirects to the dashboard and renders
  nothing.
\<close>

theorem BoardPage_missing_record_counterexample:
  "find (\<lambda>r. w_roomId r = lit ''nowhere'') (whiteboards (exampleWorld (signedIn ''alice'') None)) = None
   \<and> BoardPage (exampleWorld (signedIn ''alice'') None) (lit ''nowhere'') =
       Inr (Redirect ''/dashboard'')
   \<and> BoardPage (exampleWorld (signedIn ''alice'') None) (lit ''nowhere'') \<noteq>
       Inr (RenderWhiteboard (lit ''nowhere'') None)
   \<and> BoardPage (exampleWorld (signedIn ''alice'') None) (lit ''nowhere'') \<noteq>
       Inr (RenderWhiteboard (lit ''nowhere'') (Some (JObj [])))"
  by (simp add: example_defs BoardPage_def findUnique_def)

section \<open>The variants of an undoable action\<close>

lemma conforms_required:
  assumes "conforms (TObject props idx) v" and "(n, False, t) \<in> set props"
  shows "\<exists>x. getProp v n = Some x \<and> conforms t x"
proof -
  from assms(1) obtain kvs where v: "v = JObj kvs"
    by (cases v) simp_all
  from assms(1) v have all:
    "\<forall>p\<in>set props. case map_of kvs (lit (fst p)) of
                         None \<Rightarrow> fst (snd p)
                       | Some x \<Rightarrow> (fst (snd p) \<and> x = JUndefined) \<or> conforms (snd (snd p)) x"
    by (simp add: list_all_iff)
  from bspec [OF all assms(2)] show ?thesis
    by (cases "map_of kvs (lit n)") (simp_all add: getProp_def v)
qed

lemma conforms_string_prop:
  assumes "conforms (TObject props idx) v" and "(n, False, TString) \<in> set props"
  shows "\<exists>s. strProp v n = Some s"
proof -
  from conforms_required [OF assms] obtain x where x: "getProp v n = Some x" "conforms TString x"
    by blast
  then show ?thesis by (cases x) (simp_all add: strProp_def)
qed

lemma conforms_object_prop:
  assumes "conforms (TObject props idx) v" and "(n, False, TObject ps i) \<in> set props"
  shows "\<exists>kvs. objProp v n = Some kvs \<and> conforms (TObject ps i) (JObj kvs)"
proof -
  from conforms_required [OF assms] obtain x
    where x: "getProp v n = Some x" "conforms (TObject ps i) x"
    by blast
  then show ?thesis by (cases x) (simp_all add: objProp_def)
qed

lemma conforms_literal_prop:
  assumes "conforms (TObject props idx) v" and "(n, False, TLiteral s) \<in> set props"
  shows "strProp v n = Some (lit s)"
proof -
  from conforms_required [OF assms] obtain x where x: "getProp v n = Some x" "conforms (TLiteral s) x"
    by blast
  then show ?thesis by (simp add: strProp_def)
qed

lemma tags_distinct:
  "lit ''DELETE'' \<noteq> lit ''ADD''" "lit ''MODIFY'' \<noteq> lit ''ADD''" "lit ''MODIFY'' \<noteq> lit ''DELETE''"
  by (simp_all add: lit_def)

lemma match_ADD:
  assumes "conforms
             (TObject
                [(''type'', False, TLiteral ''ADD''),
                 (''payload'', False, TObject [(''objectId'', False, TString)] None)]
                None) action"
  shows "\<exists>oid. strProp action ''type'' = Some (lit ''ADD'')
               \<and> matchAction action = Inr (Spec_ADD oid)"
proof -
  have tag: "strProp action ''type'' = Some (lit ''ADD'')"
    by (rule conforms_literal_prop [OF assms]) simp
  obtain p where p: "objProp action ''payload'' = Some p"
      "conforms (TObject [(''objectId'', False, TString)] None) (JObj p)"
    using conforms_object_prop [OF assms, of "''payload''"] by auto
  obtain oid where "strProp (JObj p) ''objectId'' = Some oid"
    using conforms_string_prop [OF p(2), of "''objectId''"] by auto
  with tag p(1) show ?thesis by (simp add: matchAction_def)
qed

lemma match_DELETE:
  assumes "conforms
             (TObject
                [(''type'', False, TLiteral ''DELETE''),
                 (''payload'', False,
                    TObject [(''previousObjectState'', False, CanvasObjectSnapshot)] None)]
                None) action"
  shows "\<exists>prev. strProp action ''type'' = Some (lit ''DELETE'')
                \<and> matchAction action = Inr (Spec_DELETE prev)"
proof -
  have tag: "strProp action ''type'' = Some (lit ''DELETE'')"
    by (rule conforms_literal_prop [OF assms]) simp
  obtain p where p: "objProp action ''payload'' = Some p"
      "conforms (TObject [(''previousObjectState'', False, CanvasObjectSnapshot)] None) (JObj p)"
    using conforms_object_prop [OF assms, of "''payload''"] by auto
  obtain prev where prev: "objProp (JObj p) ''previousObjectState'' = Some prev"
      "conforms CanvasObjectSnapshot (JObj prev)"
    using conforms_object_prop [OF p(2), of "''previousObjectState''"]
    unfolding CanvasObjectSnapshot_def by auto
  note snap = prev(2) [unfolded CanvasObjectSnapshot_def]
  obtain t where t: "strProp (JObj prev) ''type'' = Some t"
    using conforms_string_prop [OF snap, of "''type''"] by auto
  obtain d where d: "objProp (JObj prev) ''data'' = Some d"
      "conforms
         (TObject
            [(''id'', False, TString), (''left'', True, TNumber), (''top'', True, TNumber),
             (''width'', True, TNumber), (''height'', True, TNumber), (''radius'', True, TNumber),
             (''angle'', True, TNumber), (''scaleX'', True, TNumber), (''scaleY'', True, TNumber),
             (''text'', True, TString), (''fontSize'', True, TNumber)]
            (Some TUnknown)) (JObj d)"
    using conforms_object_prop [OF snap, of "''data''"] by auto
  obtain i where "strProp (JObj d) ''id'' = Some i"
    using conforms_string_prop [OF d(2), of "''id''"] by auto
  with tag p(1) prev(1) t d(1) show ?thesis
    by (simp add: matchAction_def tags_distinct)
qed

lemma match_MODIFY:
  assumes "conforms
             (TObject
                [(''type'', False, TLiteral ''MODIFY''),
                 (''payload'', False,
                    TObject
                      [(''objectId'', False, TString),
                       (''stateBefore'', False, TObject [] (Some TAny))]
                      None)]
                None) action"
  shows "\<exists>oid before. strProp action ''type'' = Some (lit ''MODIFY'')
                \<and> matchAction action = Inr (Spec_MODIFY oid before)"
proof -
  have tag: "strProp action ''type'' = Some (lit ''MODIFY'')"
    by (rule conforms_literal_prop [OF assms]) simp
  obtain p where p: "objProp action ''payload'' = Some p"
      "conforms (TObject [(''objectId'', False, TString),
                          (''stateBefore'', False, TObject [] (Some TAny))] None) (JObj p)"
    using conforms_object_prop [OF assms, of "''payload''"] by auto
  obtain oid where oid: "strProp (JObj p) ''objectId'' = Some oid"
    using conforms_string_prop [OF p(2), of "''objectId''"] by auto
  obtain before where "objProp (JObj p) ''stateBefore'' = Some before"
    using conforms_object_prop [OF p(2), of "''stateBefore''"] by auto
  with tag p(1) oid show ?thesis
    by (simp add: matchAction_def tags_distinct)
qed

text \<open>
  Claim C8. The declared union has exactly three members, tagged \<open>ADD\<close>,
  \<open>DELETE\<close> and \<open>MODIFY\<close>, and their payloads declare, in this order, the object
  id alone, the previous object state alone, and the object id with the fields as they
  were before. Every value of the declared type carries one of the three tags and, under
  it, what the spec's variant of that name holds: the match at inversion finds a case for
  it, reads the spec's action from it, and yields the inverse store operation.
\<close>

theorem UndoableAction_three_variants:
  "map discriminant (unionMembers UndoableAction) = [Some ''ADD'', Some ''DELETE'', Some ''MODIFY'']
   \<and> map payloadProps (unionMembers UndoableAction) =
       [Some [''objectId''], Some [''previousObjectState''], Some [''objectId'', ''stateBefore'']]
   \<and> (conforms UndoableAction action \<longrightarrow>
        (\<exists>oid. strProp action ''type'' = Some (lit ''ADD'')
               \<and> matchAction action = Inr (Spec_ADD oid)
               \<and> undoOperation action = Inr (Remove oid))
        \<or> (\<exists>prev. strProp action ''type'' = Some (lit ''DELETE'')
               \<and> matchAction action = Inr (Spec_DELETE prev)
               \<and> undoOperation action = Inr (Add (contentId prev) prev))
        \<or> (\<exists>oid before. strProp action ''type'' = Some (lit ''MODIFY'')
               \<and> matchAction action = Inr (Spec_MODIFY oid before)
               \<and> undoOperation action = Inr (SetFields oid before)))"
proof (intro conjI impI)
  show "map discriminant (unionMembers UndoableAction) =
          [Some ''ADD'', Some ''DELETE'', Some ''MODIFY'']"
    by (simp add: UndoableAction_def discriminant_def)
  show "map payloadProps (unionMembers UndoableAction) =
       [Some [''objectId''], Some [''previousObjectState''], Some [''objectId'', ''stateBefore'']]"
    by (simp add: UndoableAction_def payloadProps_def)
next
  assume "conforms UndoableAction action"
  then have
    "conforms
       (TObject
          [(''type'', False, TLiteral ''ADD''),
           (''payload'', False, TObject [(''objectId'', False, TString)] None)]
          None) action
     \<or> conforms
       (TObject
          [(''type'', False, TLiteral ''DELETE''),
           (''payload'', False,
              TObject [(''previousObjectState'', False, CanvasObjectSnapshot)] None)]
          None) action
     \<or> conforms
       (TObject
          [(''type'', False, TLiteral ''MODIFY''),
           (''payload'', False,
              TObject
                [(''objectId'', False, TString),
                 (''stateBefore'', False, TObject [] (Some TAny))]
                None)]
          None) action"
    by (simp only: UndoableAction_def conforms.simps(6) list_ex_Cons_iff list_ex_Nil_iff simp_thms)
  then consider
      (add) "\<exists>oid. strProp action ''type'' = Some (lit ''ADD'')
               \<and> matchAction action = Inr (Spec_ADD oid)"
    | (delete) "\<exists>prev. strProp action ''type'' = Some (lit ''DELETE'')
               \<and> matchAction action = Inr (Spec_DELETE prev)"
    | (modify) "\<exists>oid before. strProp action ''type'' = Some (lit ''MODIFY'')
               \<and> matchAction action = Inr (Spec_MODIFY oid before)"
    using match_ADD match_DELETE match_MODIFY by blast
  then show "(\<exists>oid. strProp action ''type'' = Some (lit ''ADD'')
               \<and> matchAction action = Inr (Spec_ADD oid)
               \<and> undoOperation action = Inr (Remove oid))
        \<or> (\<exists>prev. strProp action ''type'' = Some (lit ''DELETE'')
               \<and> matchAction action = Inr (Spec_DELETE prev)
               \<and> undoOperation action = Inr (Add (contentId prev) prev))
        \<or> (\<exists>oid before. strProp action ''type'' = Some (lit ''MODIFY'')
               \<and> matchAction action = Inr (Spec_MODIFY oid before)
               \<and> undoOperation action = Inr (SetFields oid before))"
    by cases (auto simp: undoOperation_def)
qed

theorem UndoableAction_three_variants_witness:
  "conforms UndoableAction exampleAdd
   \<and> undoOperation exampleAdd = Inr (Remove (lit ''o1''))
   \<and> conforms UndoableAction exampleDelete
   \<and> undoOperation exampleDelete =
       Inr (Add (lit ''o1'')
              \<lparr>contentType = lit ''rect'', contentId = lit ''o1'',
               contentData = [(lit ''id'', JStr (lit ''o1'')), (lit ''left'', JNum 10),
                              (lit ''top'', JNum 10)]\<rparr>)
   \<and> conforms UndoableAction exampleModify
   \<and> undoOperation exampleModify = Inr (SetFields (lit ''o1'') [(lit ''left'', JNum 10)])
   \<and> \<not> conforms UndoableAction
          (JObj [(lit ''type'', JStr (lit ''MOVE'')),
                 (lit ''payload'', JObj [(lit ''objectId'', JStr (lit ''o1''))])])
   \<and> \<not> conforms UndoableAction
          (JObj [(lit ''type'', JStr (lit ''ADD'')),
                 (lit ''payload'', JObj [(lit ''stateBefore'', JObj [])])])"
  using UndoableAction_three_variants [of exampleAdd]
        UndoableAction_three_variants [of exampleDelete]
        UndoableAction_three_variants [of exampleModify]
  by (simp add: action_defs)

end
